theory Spec2Isabelle
  imports Complex_Main "HOL-Library.List_Lexorder"
begin

section \<open>Text\<close>

text \<open>
  A Python \<open>str\<close> is a sequence of Unicode code points, and \<open>len\<close>, slicing, \<open>in\<close>
  and the \<open>re\<close> module all count code points. A text is therefore a list of code
  points, each a natural number; \<open>ustr\<close> reads an ASCII literal as such a list.
\<close>

type_synonym str = "nat list"

definition ustr :: "string \<Rightarrow> str" where
  "ustr s = map of_char s"

text \<open>
  The interpreter's Unicode database decides, for the code points from U+0100 on, which
  of them are alphanumeric and what \<open>str.lower\<close> makes of them. The database is not
  part of the repository and changes with the interpreter's version, so both tables are
  left unspecified: nothing is known about their values and no result below depends on
  them. Below U+0100 (Basic Latin and Latin-1 Supplement) the classes are written out.
\<close>

definition unicode_isalnum_high :: "nat \<Rightarrow> bool" where
  "unicode_isalnum_high = undefined"

definition unicode_lower_high :: "str \<Rightarrow> nat \<Rightarrow> str \<Rightarrow> str" where
  "unicode_lower_high = undefined"

text \<open>The class \<open>\w\<close> of \<open>re\<close> on a \<open>str\<close> pattern: alphanumeric or the underscore.\<close>

definition is_word :: "nat \<Rightarrow> bool" where
  "is_word c =
     (if c < 128 then
        (48 \<le> c \<and> c \<le> 57) \<or> (65 \<le> c \<and> c \<le> 90) \<or> c = 95 \<or> (97 \<le> c \<and> c \<le> 122)
      else if c < 256 then
        c = 170 \<or> c = 178 \<or> c = 179 \<or> c = 181 \<or> c = 185 \<or> c = 186 \<or>
        (188 \<le> c \<and> c \<le> 190) \<or> (192 \<le> c \<and> c \<noteq> 215 \<and> c \<noteq> 247)
      else unicode_isalnum_high c)"

text \<open>
  \<open>str.lower\<close>, one code point at a time. The code points before (nearest first)
  and after are passed on to the unspecified table, since the lowercase of a capital
  sigma depends on them.
\<close>

definition lower_char :: "str \<Rightarrow> nat \<Rightarrow> str \<Rightarrow> str" where
  "lower_char before c after =
     (if c < 128 then (if 65 \<le> c \<and> c \<le> 90 then [c + 32] else [c])
      else if c < 256 then (if 192 \<le> c \<and> c \<le> 222 \<and> c \<noteq> 215 then [c + 32] else [c])
      else unicode_lower_high before c after)"

fun lower_from :: "str \<Rightarrow> str \<Rightarrow> str" where
  "lower_from before [] = []"
| "lower_from before (c # after) = lower_char before c after @ lower_from (c # before) after"

definition lower :: "str \<Rightarrow> str" where
  "lower s = lower_from [] s"

text \<open>\<open>str.isspace\<close>, the characters that \<open>str.strip()\<close> removes.\<close>

definition is_space :: "nat \<Rightarrow> bool" where
  "is_space c =
     ((9 \<le> c \<and> c \<le> 13) \<or> (28 \<le> c \<and> c \<le> 32) \<or> c = 133 \<or> c = 160 \<or> c = 5760 \<or>
      (8192 \<le> c \<and> c \<le> 8202) \<or> c = 8232 \<or> c = 8233 \<or> c = 8239 \<or> c = 8287 \<or> c = 12288)"

definition strip :: "str \<Rightarrow> str" where
  "strip s = rev (dropWhile is_space (rev (dropWhile is_space s)))"

text \<open>The operator \<open>w in s\<close> on two strings: \<open>w\<close> occurs in \<open>s\<close> as a contiguous run.\<close>

fun starts_with :: "str \<Rightarrow> str \<Rightarrow> bool" where
  "starts_with [] s = True"
| "starts_with (p # ps) [] = False"
| "starts_with (p # ps) (c # cs) = (p = c \<and> starts_with ps cs)"

fun str_in :: "str \<Rightarrow> str \<Rightarrow> bool" where
  "str_in w [] = (w = [])"
| "str_in w (c # cs) = (starts_with w (c # cs) \<or> str_in w cs)"

section \<open>Regular expressions of the intent helpers\<close>

text \<open>
  Both patterns have the shape \<open>\b(w1|...|wn)\b\<close> with the flag \<open>re.I\<close>, where every
  \<open>wi\<close> is written in lowercase ASCII letters and spaces. Under \<open>re.I\<close> a pattern
  letter matches itself, its capital and the code points that share its case folding:
  U+0130 and U+0131 for \<open>i\<close>, U+017F for \<open>s\<close>, U+212A for \<open>k\<close>.
\<close>

definition ci_match :: "nat \<Rightarrow> nat \<Rightarrow> bool" where
  "ci_match p c =
     (c = p \<or> (97 \<le> p \<and> p \<le> 122 \<and> c + 32 = p) \<or>
      (p = 105 \<and> (c = 304 \<or> c = 305)) \<or> (p = 115 \<and> c = 383) \<or> (p = 107 \<and> c = 8490))"

fun match_literal :: "str \<Rightarrow> str \<Rightarrow> bool" where
  "match_literal [] s = True"
| "match_literal (p # ps) [] = False"
| "match_literal (p # ps) (c # cs) = (ci_match p c \<and> match_literal ps cs)"

text \<open>
  \<open>\b\<close> holds at position \<open>i\<close> when exactly one of the characters before and after
  the position is a word character; outside the string counts as a non-word character.
\<close>

definition word_boundary :: "str \<Rightarrow> nat \<Rightarrow> bool" where
  "word_boundary s i =
     ((0 < i \<and> i \<le> length s \<and> is_word (s ! (i - 1))) \<noteq> (i < length s \<and> is_word (s ! i)))"

definition match_at :: "str list \<Rightarrow> str \<Rightarrow> nat \<Rightarrow> bool" where
  "match_at alts s i =
     (word_boundary s i \<and>
      list_ex (\<lambda>w. match_literal w (drop i s) \<and> word_boundary s (i + length w)) alts)"

text \<open>
  \<open>bool(re.search(...))\<close>: the search backtracks over every start position and every
  alternative, so it succeeds exactly when some position and alternative match.
\<close>

definition re_search :: "str list \<Rightarrow> str \<Rightarrow> bool" where
  "re_search alts s = list_ex (match_at alts s) [0..<Suc (length s)]"

section \<open>Intent helpers\<close>

definition EMERGENCY_WORDS :: "str list" where
  "EMERGENCY_WORDS =
     [ustr ''suicide'', ustr ''self harm'', ustr ''self-harm'', ustr ''violence'',
      ustr ''immediate danger'', ustr ''emergency'', ustr ''threat'']"

definition GREETING_WORDS :: "str list" where
  "GREETING_WORDS = [ustr ''hi'', ustr ''hello'', ustr ''hey'', ustr ''hola'', ustr ''namaste'']"

definition LAWYER_WORDS :: "str list" where
  "LAWYER_WORDS =
     [ustr ''lawyer'', ustr ''attorney'', ustr ''advocate'', ustr ''legal counsel'',
      ustr ''legal aid'']"

definition is_greeting :: "str \<Rightarrow> bool" where
  "is_greeting s = re_search GREETING_WORDS s"

definition is_emergency :: "str \<Rightarrow> bool" where
  "is_emergency s = (let text_l = lower s in list_ex (\<lambda>w. str_in w text_l) EMERGENCY_WORDS)"

definition wants_lawyer :: "str \<Rightarrow> bool" where
  "wants_lawyer s = re_search LAWYER_WORDS s"

section \<open>The fixed replies and the knowledge base\<close>

text \<open>
  The replies are string literals inside \<open>safe_answer\<close> and \<open>ask\<close>; they are named
  here after their role. The code point 8217 is the right single quotation mark.
\<close>

definition SAFETY_MESSAGE :: str where
  "SAFETY_MESSAGE =
     ustr (''If you or someone else is in immediate danger, please contact local '' @
           ''emergency services right now. If this is about self-harm or crisis, '' @
           ''reach out to your local suicide prevention or mental health helpline. '' @
           ''You are not alone, and help is available.'')"

definition GREETING_MESSAGE :: str where
  "GREETING_MESSAGE =
     ustr ''Hello! I'' @
     [8217] @
     ustr (''m a legal information bot. Ask me general questions (e.g., contracts, '' @
           ''IP, privacy). I can'') @
     [8217] @
     ustr ''t provide legal advice.''"

definition REFERRAL_MESSAGE :: str where
  "REFERRAL_MESSAGE =
     ustr (''I can only provide general legal information. For advice on your '' @
           ''specific situation, consider consulting a licensed lawyer in your '' @
           ''jurisdiction (e.g., your local bar association'') @
     [8217] @
     ustr ''s referral service or accredited legal aid clinics).''"

definition FALLBACK_MESSAGE :: str where
  "FALLBACK_MESSAGE =
     ustr ''I'' @
     [8217] @
     ustr (''m not confident I have an answer to that. Laws differ by jurisdiction. '' @
           ''Consider contacting a licensed attorney or a local legal aid clinic.'')"

definition PROMPT_MESSAGE :: str where
  "PROMPT_MESSAGE = ustr ''Please type a question.''"

text \<open>
  An entry of \<open>KB\<close> is a dict with the two keys \<open>"q"\<close> and \<open>"a"\<close>, here the fields
  \<open>item_q\<close> and \<open>item_a\<close>.
\<close>

record kb_item =
  item_q :: str
  item_a :: str

definition KB_literal :: "kb_item list" where
  "KB_literal =
    [
     \<lparr>item_q = ustr ''What is a contract?'',
      item_a = ustr (''A contract is an agreement between two or more parties that is intended '' @
              ''to be legally binding. Typically it requires offer, acceptance, '' @
              ''consideration, and intention to create legal relations.'')\<rparr>,
     \<lparr>item_q = ustr ''When is a contract enforceable?'',
      item_a = ustr (''In general, a contract is enforceable when the essential elements are '' @
              ''present (offer, acceptance, consideration, capacity, lawful purpose) '' @
              ''and any required formalities are met (e.g., writing when mandated by '' @
              ''law).'')\<rparr>,
     \<lparr>item_q = ustr ''What is consideration in a contract?'',
      item_a = ustr (''Consideration is something of value exchanged between parties (e.g., '' @
              ''money, goods, services, a promise) that supports a contract.'')\<rparr>,
     \<lparr>item_q = ustr ''What is negligence?'',
      item_a = ustr (''Negligence is a failure to exercise reasonable care, resulting in '' @
              ''damage or injury to another. A negligence claim typically requires '' @
              ''duty, breach, causation, and damages.'')\<rparr>,
     \<lparr>item_q = ustr ''What should I do if I am arrested?'',
      item_a = ustr (''Stay calm. Ask if you are free to leave. If not, you can state your '' @
              ''right to remain silent and request a lawyer. Do not resist. Laws vary '' @
              ''by jurisdiction; contact a licensed attorney.'')\<rparr>,
     \<lparr>item_q = ustr ''What is GDPR?'',
      item_a = ustr (''The General Data Protection Regulation (GDPR) is an EU law on data '' @
              ''protection and privacy. It sets rules on how personal data is processed '' @
              ''and gives individuals certain rights.'')\<rparr>,
     \<lparr>item_q = ustr ''What is intellectual property?'',
      item_a = ustr (''Intellectual property (IP) covers creations of the mind such as '' @
              ''inventions, literary and artistic works, designs, symbols, names and '' @
              ''images. Main types include patents, trademarks, and copyrights.'')\<rparr>,
     \<lparr>item_q = ustr ''How do I register a trademark?'',
      item_a = ustr (''Trademark registration steps vary by country, but often include: '' @
              ''searching for existing marks, filing an application with the trademarks '' @
              ''office, responding to examinations/oppositions, and paying fees.'')\<rparr>,
     \<lparr>item_q = ustr ''What is a non-disclosure agreement (NDA)?'',
      item_a = ustr (''An NDA is a contract that restricts one or more parties from disclosing '' @
              ''confidential information to others. It can be mutual or one-way and '' @
              ''should define scope, permitted use, term, and remedies.'')\<rparr>,
     \<lparr>item_q = ustr ''How do I make a simple will?'',
      item_a = ustr (''Laws vary widely. Generally you identify yourself, revoke prior wills, '' @
              ''name an executor, describe how to distribute assets, sign with required '' @
              ''witnesses, and follow formalities. Consult a local lawyer.'')\<rparr>]"

section \<open>The TF-IDF index\<close>

text \<open>
  \<open>TfidfVectorizer\<close> and \<open>cosine_similarity\<close> belong to scikit-learn, \<open>argmax\<close> to
  NumPy. They are modelled from their documented behaviour for the arguments the source
  passes: \<open>lowercase=True\<close>, \<open>stop_words="english"\<close>, \<open>ngram_range=(1,2)\<close>, and the
  defaults \<open>token_pattern=r"(?u)\b\w\w+\b"\<close>, \<open>smooth_idf=True\<close>, \<open>norm="l2"\<close>.
  The library computes in 64-bit floating point on sparse rows; here a row is the dense
  list of its entries, one per vocabulary term, and the arithmetic is that of the real
  numbers.
\<close>

text \<open>The tokens of \<open>(?u)\b\w\w+\b\<close>: the maximal runs of word characters of length two
  or more. \<open>tokens_from run s\<close> carries the run read so far.\<close>

fun tokens_from :: "str \<Rightarrow> str \<Rightarrow> str list" where
  "tokens_from run [] = (if 2 \<le> length run then [run] else [])"
| "tokens_from run (c # cs) =
     (if is_word c then tokens_from (run @ [c]) cs
      else (if 2 \<le> length run then [run] else []) @ tokens_from [] cs)"

definition tokenize :: "str \<Rightarrow> str list" where
  "tokenize s = tokens_from [] s"

text \<open>
  The stop words are dropped first; then come the remaining tokens and, after them, every
  pair of neighbouring tokens joined by a space.
\<close>

definition word_ngrams :: "str list \<Rightarrow> str list \<Rightarrow> str list" where
  "word_ngrams stop_words tokens =
     (let ts = filter (\<lambda>w. w \<notin> set stop_words) tokens
      in ts @ map (\<lambda>(u, v). u @ [32] @ v) (zip ts (tl ts)))"

text \<open>The analyzer of the vectorizer: lowercase, tokenize, drop stop words, n-grams.\<close>

definition analyze :: "str list \<Rightarrow> str \<Rightarrow> str list" where
  "analyze stop_words doc = word_ngrams stop_words (tokenize (lower doc))"

text \<open>
  A fitted vectorizer: the stop list it was built with, the vocabulary in sorted order
  (the position of a term is its column) and the inverse document frequency of each term,
  \<open>ln ((1 + n) / (1 + df)) + 1\<close>.
\<close>

record tfidf_vectorizer =
  stop_list :: "str list"
  vocabulary :: "str list"
  idf :: "real list"

definition doc_freq :: "str list list \<Rightarrow> str \<Rightarrow> nat" where
  "doc_freq analyzed t = length (filter (\<lambda>terms. t \<in> set terms) analyzed)"

definition idf_weight :: "nat \<Rightarrow> nat \<Rightarrow> real" where
  "idf_weight n df = ln ((1 + real n) / (1 + real df)) + 1"

definition fit :: "str list \<Rightarrow> str list \<Rightarrow> tfidf_vectorizer" where
  "fit stop_words raw =
     (let analyzed = map (analyze stop_words) raw;
          vocab = sort (remdups (concat analyzed))
      in \<lparr>stop_list = stop_words, vocabulary = vocab,
          idf = map (\<lambda>t. idf_weight (length raw) (doc_freq analyzed t)) vocab\<rparr>)"

text \<open>
  Rows are scaled to Euclidean length one; a row of norm zero is left as it is.
\<close>

definition l2_norm :: "real list \<Rightarrow> real" where
  "l2_norm row = sqrt (\<Sum>x\<leftarrow>row. x * x)"

definition l2_normalize :: "real list \<Rightarrow> real list" where
  "l2_normalize row = (let n = l2_norm row in if n = 0 then row else map (\<lambda>x. x / n) row)"

definition count_row :: "tfidf_vectorizer \<Rightarrow> str \<Rightarrow> real list" where
  "count_row v doc =
     (let terms = analyze (stop_list v) doc
      in map (\<lambda>t. real (count_list terms t)) (vocabulary v))"

definition transform :: "tfidf_vectorizer \<Rightarrow> str list \<Rightarrow> real list list" where
  "transform v raw =
     map (\<lambda>doc. l2_normalize (map (\<lambda>(c, w). c * w) (zip (count_row v doc) (idf v)))) raw"

definition fit_transform :: "str list \<Rightarrow> str list \<Rightarrow> tfidf_vectorizer \<times> real list list" where
  "fit_transform stop_words raw = (let v = fit stop_words raw in (v, transform v raw))"

definition dot :: "real list \<Rightarrow> real list \<Rightarrow> real" where
  "dot xs ys = (\<Sum>(x, y)\<leftarrow>zip xs ys. x * y)"

definition cosine_similarity :: "real list list \<Rightarrow> real list list \<Rightarrow> real list list" where
  "cosine_similarity X Y = map (\<lambda>x. map (\<lambda>y. dot (l2_normalize x) (l2_normalize y)) Y) X"

text \<open>
  \<open>numpy.argmax\<close> scans from the left and moves on only to a strictly greater entry; on
  an empty array it raises \<open>ValueError\<close>.
\<close>

datatype py_error = AttributeError | ValueError | IndexError

fun argmax_loop :: "real list \<Rightarrow> nat \<Rightarrow> nat \<Rightarrow> real \<Rightarrow> nat" where
  "argmax_loop [] i best_i best = best_i"
| "argmax_loop (x # xs) i best_i best =
     (if best < x then argmax_loop xs (Suc i) i x else argmax_loop xs (Suc i) best_i best)"

definition argmax :: "real list \<Rightarrow> py_error + nat" where
  "argmax xs = (case xs of [] \<Rightarrow> Inl ValueError | x # rest \<Rightarrow> Inr (argmax_loop rest 1 0 x))"

section \<open>The module state and the answer function\<close>

text \<open>
  The module-level names that the functions read. Every function takes the state and
  returns it next to its result, so that a write to a global would show in the result.
\<close>

record globals =
  KB :: "kb_item list"
  docs :: "str list"
  vectorizer :: tfidf_vectorizer
  kb_matrix :: "real list list"

text \<open>
  \<open>best_match\<close>: the row of similarities between the question and every document, the
  position of its maximum, and the pair of the score and the entry at that position.
  Indexing past the end of a list raises \<open>IndexError\<close>.
\<close>

definition best_match :: "globals \<Rightarrow> str \<Rightarrow> (py_error + real \<times> kb_item) \<times> globals" where
  "best_match g user_text =
     (let user_vec = transform (vectorizer g) [user_text];
          sims = cosine_similarity user_vec (kb_matrix g) ! 0
      in case argmax sims of
           Inl e \<Rightarrow> (Inl e, g)
         | Inr idx \<Rightarrow>
             if idx < length (KB g) then (Inr (sims ! idx, KB g ! idx), g)
             else (Inl IndexError, g))"

definition safe_answer :: "globals \<Rightarrow> str \<Rightarrow> (py_error + str) \<times> globals" where
  "safe_answer g user_text =
     (if is_emergency user_text then (Inr SAFETY_MESSAGE, g)
      else if is_greeting user_text then (Inr GREETING_MESSAGE, g)
      else if wants_lawyer user_text then (Inr REFERRAL_MESSAGE, g)
      else case best_match g user_text of
             (Inl e, g') \<Rightarrow> (Inl e, g')
           | (Inr (score, item), g') \<Rightarrow>
               if score < 15 / 100 then (Inr FALLBACK_MESSAGE, g')
               else (Inr (item_a item), g'))"

section \<open>Properties of the answer function\<close>

lemma starts_with_iff: "starts_with w s \<longleftrightarrow> (\<exists>post. s = w @ post)"
  by (induction w s rule: starts_with.induct) auto

lemma str_in_iff: "str_in w s \<longleftrightarrow> (\<exists>pre post. s = pre @ w @ post)"
proof (induction s)
  case Nil
  then show ?case by auto
next
  case (Cons c cs)
  show ?case
  proof
    assume "str_in w (c # cs)"
    then consider "starts_with w (c # cs)" | "str_in w cs" by auto
    then show "\<exists>pre post. c # cs = pre @ w @ post"
    proof cases
      case 1
      then obtain post where "c # cs = w @ post" using starts_with_iff by blast
      then have "c # cs = [] @ w @ post" by simp
      then show ?thesis by blast
    next
      case 2
      then obtain pre post where "cs = pre @ w @ post" using Cons.IH by blast
      then have "c # cs = (c # pre) @ w @ post" by simp
      then show ?thesis by blast
    qed
  next
    assume "\<exists>pre post. c # cs = pre @ w @ post"
    then obtain pre post where e: "c # cs = pre @ w @ post" by blast
    show "str_in w (c # cs)"
    proof (cases pre)
      case Nil
      then have "starts_with w (c # cs)" using e starts_with_iff by auto
      then show ?thesis by simp
    next
      case (Cons p ps)
      then have "cs = ps @ w @ post" using e by simp
      then have "str_in w cs" using Cons.IH by blast
      then show ?thesis by simp
    qed
  qed
qed

lemma is_emergency_iff:
  "is_emergency s \<longleftrightarrow> (\<exists>w \<in> set EMERGENCY_WORDS. \<exists>pre post. lower s = pre @ w @ post)"
  by (simp add: is_emergency_def list_ex_iff str_in_iff)

text \<open>
  Claim C1. Whenever the lowercased input contains one of the emergency keywords as a
  contiguous substring, \<open>safe_answer\<close> returns exactly the safety message, whatever the
  state and whatever else the input contains (greeting words, referral terms, text close
  to a knowledge-base entry).
\<close>

theorem safe_answer_emergency:
  "(\<exists>w \<in> set EMERGENCY_WORDS. \<exists>pre post. lower user_text = pre @ w @ post)
   \<Longrightarrow> fst (safe_answer g user_text) = Inr SAFETY_MESSAGE"
  by (simp add: is_emergency_iff safe_answer_def)

theorem safe_answer_emergency_witness:
  "ustr ''suicide'' \<in> set EMERGENCY_WORDS \<and>
   lower (ustr ''Hi lawyer, SUICIDE now'') = ustr ''hi lawyer, '' @ ustr ''suicide'' @ ustr '' now'' \<and>
   is_greeting (ustr ''Hi lawyer, SUICIDE now'') \<and> wants_lawyer (ustr ''Hi lawyer, SUICIDE now'') \<and>
   fst (safe_answer \<lparr>KB = [], docs = [], vectorizer = \<lparr>stop_list = [], vocabulary = [], idf = []\<rparr>,
                     kb_matrix = []\<rparr> (ustr ''Hi lawyer, SUICIDE now'')) = Inr SAFETY_MESSAGE"
proof -
  have m: "ustr ''suicide'' \<in> set EMERGENCY_WORDS" by code_simp
  have l: "lower (ustr ''Hi lawyer, SUICIDE now'') =
           ustr ''hi lawyer, '' @ ustr ''suicide'' @ ustr '' now''" by code_simp
  have g: "is_greeting (ustr ''Hi lawyer, SUICIDE now'')" by code_simp
  have w: "wants_lawyer (ustr ''Hi lawyer, SUICIDE now'')" by code_simp
  from m l have "\<exists>w \<in> set EMERGENCY_WORDS. \<exists>pre post.
      lower (ustr ''Hi lawyer, SUICIDE now'') = pre @ w @ post" by blast
  from safe_answer_emergency [OF this] m l g w show ?thesis by blast
qed

text \<open>
  Claim C4. Whenever the input matches one of the greeting words as a whole word,
  \<open>safe_answer\<close> returns the greeting message if the input holds no emergency keyword, and
  the safety message if it holds one.
\<close>

theorem safe_answer_greeting:
  "is_greeting user_text \<Longrightarrow>
   fst (safe_answer g user_text) =
     (if is_emergency user_text then Inr SAFETY_MESSAGE else Inr GREETING_MESSAGE)"
  by (simp add: safe_answer_def)

theorem safe_answer_greeting_witness:
  "is_greeting (ustr ''Hello there'') \<and> \<not> is_emergency (ustr ''Hello there'') \<and>
   fst (safe_answer \<lparr>KB = [], docs = [], vectorizer = \<lparr>stop_list = [], vocabulary = [], idf = []\<rparr>,
                     kb_matrix = []\<rparr> (ustr ''Hello there'')) = Inr GREETING_MESSAGE"
proof -
  have g: "is_greeting (ustr ''Hello there'')" by code_simp
  have e: "\<not> is_emergency (ustr ''Hello there'')" by code_simp
  from safe_answer_greeting [OF g] g e show ?thesis by simp
qed

text \<open>
  Claim C3, as stated: every input with a referral term as a whole word and no emergency
  keyword gets the referral message. The input \<open>hi lawyer\<close> has the referral term
  \<open>lawyer\<close> and no emergency keyword, but the greeting check comes first in
  \<open>safe_answer\<close> and the reply is the greeting message, which differs from the referral
  message.
\<close>

theorem safe_answer_lawyer_counterexample:
  "wants_lawyer (ustr ''hi lawyer'') \<and> \<not> is_emergency (ustr ''hi lawyer'') \<and>
   fst (safe_answer \<lparr>KB = [], docs = [], vectorizer = \<lparr>stop_list = [], vocabulary = [], idf = []\<rparr>,
                     kb_matrix = []\<rparr> (ustr ''hi lawyer'')) = Inr GREETING_MESSAGE \<and>
   GREETING_MESSAGE \<noteq> REFERRAL_MESSAGE"
proof -
  have w: "wants_lawyer (ustr ''hi lawyer'')" by code_simp
  have e: "\<not> is_emergency (ustr ''hi lawyer'')" by code_simp
  have g: "is_greeting (ustr ''hi lawyer'')" by code_simp
  have d: "GREETING_MESSAGE \<noteq> REFERRAL_MESSAGE" by code_simp
  from w e g d show ?thesis by (simp add: safe_answer_def)
qed

text \<open>
  Claim C3, amended: every input with a referral term as a whole word, no emergency
  keyword and no greeting word as a whole word gets the referral message.
\<close>

theorem safe_answer_lawyer:
  "wants_lawyer user_text \<Longrightarrow> \<not> is_emergency user_text \<Longrightarrow> \<not> is_greeting user_text \<Longrightarrow>
   fst (safe_answer g user_text) = Inr REFERRAL_MESSAGE"
  by (simp add: safe_answer_def)

theorem safe_answer_lawyer_witness:
  "wants_lawyer (ustr ''I need a Lawyer'') \<and> \<not> is_emergency (ustr ''I need a Lawyer'') \<and>
   \<not> is_greeting (ustr ''I need a Lawyer'') \<and>
   fst (safe_answer \<lparr>KB = [], docs = [], vectorizer = \<lparr>stop_list = [], vocabulary = [], idf = []\<rparr>,
                     kb_matrix = []\<rparr> (ustr ''I need a Lawyer'')) = Inr REFERRAL_MESSAGE"
proof -
  have w: "wants_lawyer (ustr ''I need a Lawyer'')" by code_simp
  have e: "\<not> is_emergency (ustr ''I need a Lawyer'')" by code_simp
  have g: "\<not> is_greeting (ustr ''I need a Lawyer'')" by code_simp
  from safe_answer_lawyer [OF w e g] w e g show ?thesis by simp
qed

end
